theory Spec2Isabelle
  imports Main "HOL-Library.Char_ord" "HOL-Library.List_Lexorder"
begin

section \<open>Values of the host language\<close>

text \<open>
  The numbers the strategy engine handles are index values, thresholds and epoch
  timestamps. They are modelled as the integers, plus the one non-number that
  \<^verbatim>\<open>parseInt\<close> produces on text without digits and that the
  callers in \<^verbatim>\<open>main.js\<close> hand on unchecked
  (\<^verbatim>\<open>updateSettings({ buyThreshold: parseInt(e.target.value) })\<close>).
  Integers are taken below \<open>10^21\<close> in magnitude, where the host prints them in
  plain decimal notation and \<^verbatim>\<open>parseInt\<close> of a number returns it unchanged.
\<close>

datatype jsnum = Num int | NaN

text \<open>Every comparison with \<open>NaN\<close> is false.\<close>

fun js_le :: "jsnum \<Rightarrow> jsnum \<Rightarrow> bool" where
  "js_le (Num a) (Num b) = (a \<le> b)"
| "js_le _ _ = False"

fun js_ge :: "jsnum \<Rightarrow> jsnum \<Rightarrow> bool" where
  "js_ge (Num a) (Num b) = (a \<ge> b)"
| "js_ge _ _ = False"

text \<open>\<^verbatim>\<open>Math.min\<close> and \<^verbatim>\<open>Math.max\<close> return \<open>NaN\<close> as soon as one argument is \<open>NaN\<close>.\<close>

fun Math_min :: "jsnum \<Rightarrow> jsnum \<Rightarrow> jsnum" where
  "Math_min (Num a) (Num b) = Num (min a b)"
| "Math_min _ _ = NaN"

fun Math_max :: "jsnum \<Rightarrow> jsnum \<Rightarrow> jsnum" where
  "Math_max (Num a) (Num b) = Num (max a b)"
| "Math_max _ _ = NaN"

text \<open>\<^verbatim>\<open>parseInt\<close> applied to a number: the identity on integers, \<open>NaN\<close> on \<open>NaN\<close>.\<close>

fun parseInt :: "jsnum \<Rightarrow> jsnum" where
  "parseInt (Num n) = Num n"
| "parseInt NaN = NaN"

text \<open>Decimal printing, as a template literal does it for \<^verbatim>\<open>${index}\<close>.\<close>

definition digit :: "nat \<Rightarrow> char" where
  "digit d = char_of (48 + d)"

function showNat :: "nat \<Rightarrow> string" where
  "showNat n = (if n < 10 then [digit n] else showNat (n div 10) @ [digit (n mod 10)])"
  by pat_completeness auto
termination
  by (relation "measure (\<lambda>n. n)") auto

declare showNat.simps [simp del]

definition showInt :: "int \<Rightarrow> string" where
  "showInt i = (if i < 0 then ''-'' @ showNat (nat (- i)) else showNat (nat i))"

fun js_toString :: "jsnum \<Rightarrow> string" where
  "js_toString (Num n) = showInt n"
| "js_toString NaN = ''NaN''"

text \<open>The exceptions of the host that the modelled code can raise.\<close>

datatype js_error = RangeError | Error string

section \<open>Calendar dates of epoch timestamps\<close>

text \<open>
  \<^verbatim>\<open>new Date(timestamp * 1000).toISOString().split('T')[0]\<close>: the UTC calendar
  date of an epoch-second timestamp. A time value is valid up to \<open>8.64 * 10^15\<close>
  milliseconds on either side of the epoch; \<^verbatim>\<open>toISOString\<close> raises a
  RangeError on an invalid date. Years within \<open>0..9999\<close> print with four digits, all
  others with a sign and six digits.
\<close>

definition maxTimeMs :: int where
  "maxTimeMs = 8640000000000000"

definition validTime :: "int \<Rightarrow> bool" where
  "validTime ts = (\<bar>ts * 1000\<bar> \<le> maxTimeMs)"

definition pad :: "nat \<Rightarrow> string \<Rightarrow> string" where
  "pad w s = replicate (w - length s) (CHR ''0'') @ s"

text \<open>Day number since 1970-01-01 to (year, month, day) of the proleptic Gregorian calendar.\<close>

definition civil :: "int \<Rightarrow> int \<times> int \<times> int" where
  "civil days =
     (let z = days + 719468;
          era = z div 146097;
          doe = z mod 146097;
          yoe = (doe - doe div 1460 + doe div 36524 - doe div 146096) div 365;
          doy = doe - (365 * yoe + yoe div 4 - yoe div 100);
          mp = (5 * doy + 2) div 153;
          d = doy - (153 * mp + 2) div 5 + 1;
          m = (if mp < 10 then mp + 3 else mp - 9);
          y = yoe + era * 400 + (if m \<le> 2 then 1 else 0)
      in (y, m, d))"

definition showYear :: "int \<Rightarrow> string" where
  "showYear y =
     (if 0 \<le> y \<and> y \<le> 9999 then pad 4 (showNat (nat y))
      else (if y < 0 then ''-'' else ''+'') @ pad 6 (showNat (nat \<bar>y\<bar>)))"

definition dateKey :: "int \<Rightarrow> string" where
  "dateKey ts =
     (case civil (ts div 86400) of
        (y, m, d) \<Rightarrow> showYear y @ ''-'' @ pad 2 (showNat (nat m)) @ ''-'' @ pad 2 (showNat (nat d)))"

fun toISODate :: "jsnum \<Rightarrow> js_error + string" where
  "toISODate NaN = Inl RangeError"
| "toISODate (Num ts) = (if validTime ts then Inr (dateKey ts) else Inl RangeError)"

section \<open>Data model\<close>

text \<open>A candle; only its date key is read by the strategies, the prices are a payload.\<close>

record 'p Candle =
  time :: string
  ohlcv :: 'p

record SignalMarker =
  time :: string
  type :: string
  text' :: string
  reason :: string
  strategyId :: string

record ChartMarker =
  time :: string
  position :: string
  color :: string
  shape :: string
  text' :: string

text \<open>
  One entry of the sentiment history. A field holds the number that \<^verbatim>\<open>parseInt\<close>
  reads off it: a timestamp or value delivered as decimal text stands for the integer it
  spells, a field without leading digits for \<open>NaN\<close>.
\<close>

record FgData =
  timestamp :: jsnum
  value' :: jsnum

text \<open>
  The second argument of \<^verbatim>\<open>calculate\<close>; \<open>None\<close> is a property that is
  \<^verbatim>\<open>undefined\<close>.
\<close>

record ExtraData =
  fearGreedIndex :: "jsnum option"
  fearGreedHistory :: "FgData list option"

text \<open>The argument of \<^verbatim>\<open>updateSettings\<close>, a partial settings object.\<close>

record Settings =
  buyThreshold :: "jsnum option"
  sellThreshold :: "jsnum option"

text \<open>The instance state of the Fear and Greed strategy.\<close>

record FearGreedStrategy =
  id' :: string
  name :: string
  enabled :: bool
  buyThreshold :: jsnum
  sellThreshold :: jsnum

section \<open>strategies/base.js\<close>

definition createSignalMarker ::
  "string \<Rightarrow> string \<Rightarrow> string \<Rightarrow> string \<Rightarrow> string \<Rightarrow> SignalMarker" where
  "createSignalMarker tm ty tx rs sid =
     \<lparr>SignalMarker.time = tm, type = ty, SignalMarker.text' = tx, reason = rs, strategyId = sid\<rparr>"

text \<open>\<^verbatim>\<open>signal.text || 'Buy'\<close>: the empty string is the falsy text.\<close>

definition or_default :: "string \<Rightarrow> string \<Rightarrow> string" where
  "or_default s d = (if s = [] then d else s)"

definition toChartMarker :: "SignalMarker \<Rightarrow> ChartMarker" where
  "toChartMarker signal =
     (if type signal = ''buy'' then
        \<lparr>ChartMarker.time = SignalMarker.time signal,
         position = ''belowBar'',
         color = ''#00d26a'',
         shape = ''arrowUp'',
         ChartMarker.text' = or_default (SignalMarker.text' signal) ''Buy''\<rparr>
      else
        \<lparr>ChartMarker.time = SignalMarker.time signal,
         position = ''aboveBar'',
         color = ''#ff6b6b'',
         shape = ''arrowDown'',
         ChartMarker.text' = or_default (SignalMarker.text' signal) ''Sell''\<rparr>)"

definition setEnabled :: "bool \<Rightarrow> FearGreedStrategy \<Rightarrow> FearGreedStrategy" where
  "setEnabled e this = this\<lparr>enabled := e\<rparr>"

definition isEnabled :: "FearGreedStrategy \<Rightarrow> bool" where
  "isEnabled this = enabled this"

section \<open>strategies/feargreed.js\<close>

definition new_FearGreedStrategy :: FearGreedStrategy where
  "new_FearGreedStrategy =
     \<lparr>id' = ''feargreed'', name = ''Fear & Greed Index'', enabled = True,
      buyThreshold = Num 20, sellThreshold = Num 80\<rparr>"

definition getClassification :: "jsnum \<Rightarrow> string" where
  "getClassification index =
     (if js_le index (Num 20) then ''Extreme Fear''
      else if js_le index (Num 40) then ''Fear''
      else if js_le index (Num 60) then ''Neutral''
      else if js_le index (Num 80) then ''Greed''
      else ''Extreme Greed'')"

definition evaluateIndex :: "FearGreedStrategy \<Rightarrow> jsnum \<Rightarrow> string \<Rightarrow> SignalMarker option" where
  "evaluateIndex this index tm =
     (if js_le index (FearGreedStrategy.buyThreshold this) then
        Some (createSignalMarker tm ''buy'' (''FG:'' @ js_toString index)
                (getClassification index) (id' this))
      else if js_ge index (FearGreedStrategy.sellThreshold this) then
        Some (createSignalMarker tm ''sell'' (''FG:'' @ js_toString index)
                (getClassification index) (id' this))
      else None)"

definition getSettings :: "FearGreedStrategy \<Rightarrow> Settings" where
  "getSettings this =
     \<lparr>Settings.buyThreshold = Some (FearGreedStrategy.buyThreshold this),
      Settings.sellThreshold = Some (FearGreedStrategy.sellThreshold this)\<rparr>"

definition updateSettings :: "Settings \<Rightarrow> FearGreedStrategy \<Rightarrow> FearGreedStrategy" where
  "updateSettings settings this =
     (let this1 =
            (case Settings.buyThreshold settings of
               None \<Rightarrow> this
             | Some v \<Rightarrow>
                 this\<lparr>FearGreedStrategy.buyThreshold := Math_max (Num 0) (Math_min (Num 100) v)\<rparr>)
      in case Settings.sellThreshold settings of
           None \<Rightarrow> this1
         | Some v \<Rightarrow>
             this1\<lparr>FearGreedStrategy.sellThreshold := Math_max (Num 0) (Math_min (Num 100) v)\<rparr>)"

text \<open>The lookup table from date key to candle that \<^verbatim>\<open>calculate\<close> fills.\<close>

definition candleMap_of :: "'p Candle list \<Rightarrow> (string \<rightharpoonup> 'p Candle)" where
  "candleMap_of candles = fold (\<lambda>candle m. m(Candle.time candle \<mapsto> candle)) candles Map.empty"

text \<open>
  The body of \<^verbatim>\<open>fearGreedHistory.forEach\<close>, with the array \<open>signals\<close> it pushes
  to; a RangeError of the date conversion ends the loop and the call.
\<close>

fun history_loop ::
  "FearGreedStrategy \<Rightarrow> (string \<rightharpoonup> 'p Candle) \<Rightarrow> FgData list \<Rightarrow> SignalMarker list
     \<Rightarrow> js_error + SignalMarker list" where
  "history_loop this candleMap [] signals = Inr signals"
| "history_loop this candleMap (fgData # rest) signals =
     (case toISODate (parseInt (timestamp fgData)) of
        Inl e \<Rightarrow> Inl e
      | Inr dateStr \<Rightarrow>
          (let v = parseInt (value' fgData) in
           if candleMap dateStr \<noteq> None then
             (case evaluateIndex this v dateStr of
                Some signal \<Rightarrow> history_loop this candleMap rest (signals @ [signal])
              | None \<Rightarrow> history_loop this candleMap rest signals)
           else history_loop this candleMap rest signals))"

text \<open>
  The destructuring \<^verbatim>\<open>{ fearGreedIndex, fearGreedHistory = [] } = extraData\<close>: a
  history that is \<^verbatim>\<open>undefined\<close> is the empty array.
\<close>

definition history_of :: "ExtraData \<Rightarrow> FgData list" where
  "history_of extraData = (case fearGreedHistory extraData of None \<Rightarrow> [] | Some h \<Rightarrow> h)"

definition calculate ::
  "FearGreedStrategy \<Rightarrow> 'p Candle list \<Rightarrow> ExtraData \<Rightarrow> js_error + SignalMarker list" where
  "calculate this candles extraData =
     (if \<not> enabled this then Inr []
      else
        (let history = history_of extraData in
         if length history > 0 \<and> length candles > 0 then
           history_loop this (candleMap_of candles) history []
         else
           (case fearGreedIndex extraData of
              Some index \<Rightarrow>
                if length candles > 0 then
                  (let latestCandle = candles ! (length candles - 1) in
                   case evaluateIndex this index (Candle.time latestCandle) of
                     Some signal \<Rightarrow> Inr [signal]
                   | None \<Rightarrow> Inr [])
                else Inr []
            | None \<Rightarrow> Inr [])))"

section \<open>main.js: the aggregator\<close>

text \<open>
  What \<^verbatim>\<open>_recalculateSignals\<close> uses of a registered strategy object: the result of
  \<^verbatim>\<open>isEnabled()\<close> and its \<^verbatim>\<open>calculate\<close> method.
\<close>

record 'p SignalStrategy =
  s_isEnabled :: bool
  s_calculate :: "'p Candle list \<Rightarrow> ExtraData \<Rightarrow> js_error + SignalMarker list"

text \<open>The method of the base class, for a subclass that does not override it.\<close>

definition base_calculate :: "'p Candle list \<Rightarrow> ExtraData \<Rightarrow> js_error + SignalMarker list" where
  "base_calculate candles extraData = Inl (Error ''calculate() must be implemented by subclass'')"

definition as_strategy :: "FearGreedStrategy \<Rightarrow> 'p SignalStrategy" where
  "as_strategy this = \<lparr>s_isEnabled = isEnabled this, s_calculate = calculate this\<rparr>"

text \<open>
  The fields of \<^verbatim>\<open>this.state\<close> that the aggregator reads and writes. The index is
  \<^verbatim>\<open>null\<close> only until the first fetch stores a number together with the candles;
  with no candles \<^verbatim>\<open>_recalculateSignals\<close> returns before it reads the index.
\<close>

record 'p AppState =
  candles :: "'p Candle list"
  fearGreedIndex :: jsnum
  fearGreedHistory :: "FgData list"
  signals :: "SignalMarker list"

text \<open>The loop over \<^verbatim>\<open>this.strategies\<close>, with the array \<open>allSignals\<close> it pushes to.\<close>

fun collectSignals ::
  "'p SignalStrategy list \<Rightarrow> 'p Candle list \<Rightarrow> ExtraData \<Rightarrow> SignalMarker list
     \<Rightarrow> js_error + SignalMarker list" where
  "collectSignals [] cs extraData allSignals = Inr allSignals"
| "collectSignals (strategy # rest) cs extraData allSignals =
     (if s_isEnabled strategy then
        (case s_calculate strategy cs extraData of
           Inl e \<Rightarrow> Inl e
         | Inr sigs \<Rightarrow> collectSignals rest cs extraData (allSignals @ sigs))
      else collectSignals rest cs extraData allSignals)"








section \<open>Notions used to state the properties\<close>

text \<open>A value that crosses a threshold of the strategy.\<close>

definition crosses :: "FearGreedStrategy \<Rightarrow> jsnum \<Rightarrow> bool" where
  "crosses this v =
     (js_le v (FearGreedStrategy.buyThreshold this) \<or> js_ge v (FearGreedStrategy.sellThreshold this))"

text \<open>A number within the closed range from 0 to 100.\<close>

fun in_range :: "jsnum \<Rightarrow> bool" where
  "in_range (Num n) = (0 \<le> n \<and> n \<le> 100)"
| "in_range NaN = False"

fun is_number :: "jsnum option \<Rightarrow> bool" where
  "is_number (Some NaN) = False"
| "is_number _ = True"

text \<open>A history entry whose timestamp is a number within the range of valid dates.\<close>

definition validPoint :: "FgData \<Rightarrow> bool" where
  "validPoint p = (case timestamp p of Num ts \<Rightarrow> validTime ts | NaN \<Rightarrow> False)"

text \<open>The date key of a history entry with a valid timestamp.\<close>

definition pointKey :: "FgData \<Rightarrow> string" where
  "pointKey p = (case timestamp p of Num ts \<Rightarrow> dateKey ts | NaN \<Rightarrow> [])"

text \<open>The strategy states that the constructor and the public methods produce.\<close>

inductive reachable :: "FearGreedStrategy \<Rightarrow> bool" where
  r_new: "reachable new_FearGreedStrategy"
| r_setEnabled: "reachable s \<Longrightarrow> reachable (setEnabled e s)"
| r_updateSettings: "reachable s \<Longrightarrow> reachable (updateSettings settings s)"

text \<open>
  A marker dated at one of the keys \<open>K\<close>, of type buy or sell, attributed to the strategy.
\<close>

definition marker_ok :: "FearGreedStrategy \<Rightarrow> string set \<Rightarrow> SignalMarker \<Rightarrow> bool" where
  "marker_ok this K m \<longleftrightarrow>
     SignalMarker.time m \<in> K \<and> (type m = ''buy'' \<or> type m = ''sell'') \<and> strategyId m = id' this"





section \<open>Threshold evaluation and classification\<close>

lemma evaluateIndex_cases:
  "evaluateIndex this v tm =
     (if js_le v (FearGreedStrategy.buyThreshold this) then
        Some \<lparr>SignalMarker.time = tm, type = ''buy'', text' = ''FG:'' @ js_toString v,
              reason = getClassification v, strategyId = id' this\<rparr>
      else if js_ge v (FearGreedStrategy.sellThreshold this) then
        Some \<lparr>SignalMarker.time = tm, type = ''sell'', text' = ''FG:'' @ js_toString v,
              reason = getClassification v, strategyId = id' this\<rparr>
      else None)"
  by (simp add: evaluateIndex_def createSignalMarker_def)

text \<open>
  C1 (as amended). For every index value, time key and strategy state,
  \<open>evaluateIndex\<close> returns a buy marker whenever the value is at most the buy
  threshold, a sell marker whenever the value is at least the sell threshold and not at
  most the buy threshold, and no marker otherwise. With the thresholds of a new strategy,
  20 and 80, the value 20 gives a buy marker, 21 no marker, 80 a sell marker and 79 no
  marker.
\<close>

theorem evaluateIndex_thresholds:
  "(js_le v (FearGreedStrategy.buyThreshold this) \<longrightarrow>
      (\<exists>m. evaluateIndex this v tm = Some m \<and> type m = ''buy'' \<and> SignalMarker.time m = tm))
   \<and> (js_ge v (FearGreedStrategy.sellThreshold this) \<and> \<not> js_le v (FearGreedStrategy.buyThreshold this) \<longrightarrow>
      (\<exists>m. evaluateIndex this v tm = Some m \<and> type m = ''sell'' \<and> SignalMarker.time m = tm))
   \<and> (\<not> js_le v (FearGreedStrategy.buyThreshold this) \<and> \<not> js_ge v (FearGreedStrategy.sellThreshold this) \<longrightarrow>
      evaluateIndex this v tm = None)
   \<and> (\<exists>m. evaluateIndex new_FearGreedStrategy (Num 20) tm = Some m \<and> type m = ''buy'')
   \<and> evaluateIndex new_FearGreedStrategy (Num 21) tm = None
   \<and> (\<exists>m. evaluateIndex new_FearGreedStrategy (Num 80) tm = Some m \<and> type m = ''sell'')
   \<and> evaluateIndex new_FearGreedStrategy (Num 79) tm = None"
  by (simp add: evaluateIndex_cases new_FearGreedStrategy_def)

theorem evaluateIndex_thresholds_witness:
  "(\<exists>m. evaluateIndex
            (updateSettings \<lparr>Settings.buyThreshold = Some (Num 30), Settings.sellThreshold = None\<rparr>
               new_FearGreedStrategy)
            (Num 25) ''2024-01-01'' = Some m
          \<and> type m = ''buy'' \<and> SignalMarker.time m = ''2024-01-01'')
   \<and> (\<exists>m. evaluateIndex new_FearGreedStrategy (Num 95) ''2024-01-01'' = Some m
          \<and> type m = ''sell'' \<and> SignalMarker.time m = ''2024-01-01'')
   \<and> evaluateIndex new_FearGreedStrategy (Num 50) ''2024-01-01'' = None"
  using evaluateIndex_thresholds [of "Num 25"
      "updateSettings \<lparr>Settings.buyThreshold = Some (Num 30), Settings.sellThreshold = None\<rparr>
         new_FearGreedStrategy" "''2024-01-01''"]
    evaluateIndex_thresholds [of "Num 95" new_FearGreedStrategy "''2024-01-01''"]
    evaluateIndex_thresholds [of "Num 50" new_FearGreedStrategy "''2024-01-01''"]
  by (simp add: updateSettings_def new_FearGreedStrategy_def)

text \<open>
  C1 as stated fails: after the thresholds are set to 90 and 10, the value 50 is at least
  the sell threshold, yet the marker returned is the buy marker.
\<close>

theorem evaluateIndex_sell_counterexample:
  "js_ge (Num 50)
     (FearGreedStrategy.sellThreshold
        (updateSettings \<lparr>Settings.buyThreshold = Some (Num 90), Settings.sellThreshold = Some (Num 10)\<rparr>
           new_FearGreedStrategy))
   \<and> evaluateIndex
        (updateSettings \<lparr>Settings.buyThreshold = Some (Num 90), Settings.sellThreshold = Some (Num 10)\<rparr>
           new_FearGreedStrategy)
        (Num 50) ''2024-01-01''
      = Some \<lparr>SignalMarker.time = ''2024-01-01'', type = ''buy'', text' = ''FG:50'',
              reason = ''Neutral'', strategyId = ''feargreed''\<rparr>"
  by code_simp

text \<open>
  C9. When the value is both at most the buy threshold and at least the sell threshold,
  \<open>evaluateIndex\<close> returns the buy marker and nothing else: one evaluation yields at
  most one marker, and the buy branch wins.
\<close>

theorem evaluateIndex_buy_precedence:
  "js_le v (FearGreedStrategy.buyThreshold this) \<Longrightarrow> js_ge v (FearGreedStrategy.sellThreshold this) \<Longrightarrow>
     evaluateIndex this v tm =
       Some \<lparr>SignalMarker.time = tm, type = ''buy'', text' = ''FG:'' @ js_toString v,
             reason = getClassification v, strategyId = id' this\<rparr>"
  by (simp add: evaluateIndex_cases)

theorem evaluateIndex_buy_precedence_witness:
  "js_le (Num 50) (Num 90) \<and> js_ge (Num 50) (Num 10)
   \<and> evaluateIndex
       (new_FearGreedStrategy\<lparr>FearGreedStrategy.buyThreshold := Num 90,
                               FearGreedStrategy.sellThreshold := Num 10\<rparr>)
       (Num 50) ''2024-01-01'' =
       Some \<lparr>SignalMarker.time = ''2024-01-01'', type = ''buy'', text' = ''FG:50'',
             reason = ''Neutral'', strategyId = ''feargreed''\<rparr>"
proof -
  have t: "showInt 50 = ''50''" by code_simp
  have c: "getClassification (Num 50) = ''Neutral''" by (simp add: getClassification_def)
  show ?thesis
    using evaluateIndex_buy_precedence [of "Num 50"
        "new_FearGreedStrategy\<lparr>FearGreedStrategy.buyThreshold := Num 90,
                                FearGreedStrategy.sellThreshold := Num 10\<rparr>" "''2024-01-01''"]
    by (simp add: new_FearGreedStrategy_def t c)
qed

text \<open>
  C5. On the integers from 0 to 100 the classification is a function into five names, one
  for each of the ranges 0..20, 21..40, 41..60, 61..80 and 81..100; 40 is classified
  Fear and 41 Neutral.
\<close>

theorem getClassification_buckets:
  "(0 \<le> n \<and> n \<le> 20 \<longrightarrow> getClassification (Num n) = ''Extreme Fear'')
   \<and> (21 \<le> n \<and> n \<le> 40 \<longrightarrow> getClassification (Num n) = ''Fear'')
   \<and> (41 \<le> n \<and> n \<le> 60 \<longrightarrow> getClassification (Num n) = ''Neutral'')
   \<and> (61 \<le> n \<and> n \<le> 80 \<longrightarrow> getClassification (Num n) = ''Greed'')
   \<and> (81 \<le> n \<and> n \<le> 100 \<longrightarrow> getClassification (Num n) = ''Extreme Greed'')
   \<and> getClassification (Num 40) = ''Fear''
   \<and> getClassification (Num 41) = ''Neutral''"
  by (simp add: getClassification_def)

theorem getClassification_buckets_witness:
  "getClassification (Num 0) = ''Extreme Fear''
   \<and> getClassification (Num 21) = ''Fear''
   \<and> getClassification (Num 60) = ''Neutral''
   \<and> getClassification (Num 80) = ''Greed''
   \<and> getClassification (Num 100) = ''Extreme Greed''"
  using getClassification_buckets [of 0] getClassification_buckets [of 21]
    getClassification_buckets [of 60] getClassification_buckets [of 80]
    getClassification_buckets [of 100]
  by simp

section \<open>Settings update\<close>

lemma clamp_number_in_range:
  "is_number (Some v) \<Longrightarrow> in_range (Math_max (Num 0) (Math_min (Num 100) v))"
  by (cases v) auto

lemma updateSettings_keeps_range:
  "is_number (Settings.buyThreshold st) \<Longrightarrow> is_number (Settings.sellThreshold st) \<Longrightarrow>
   in_range (FearGreedStrategy.buyThreshold s) \<Longrightarrow> in_range (FearGreedStrategy.sellThreshold s) \<Longrightarrow>
     in_range (FearGreedStrategy.buyThreshold (updateSettings st s))
     \<and> in_range (FearGreedStrategy.sellThreshold (updateSettings st s))"
  by (auto simp: updateSettings_def Let_def clamp_number_in_range split: option.splits)

lemma fold_updateSettings_keeps_range:
  "list_all (\<lambda>st. is_number (Settings.buyThreshold st) \<and> is_number (Settings.sellThreshold st)) sts \<Longrightarrow>
   in_range (FearGreedStrategy.buyThreshold s) \<Longrightarrow> in_range (FearGreedStrategy.sellThreshold s) \<Longrightarrow>
     in_range (FearGreedStrategy.buyThreshold (fold updateSettings sts s))
     \<and> in_range (FearGreedStrategy.sellThreshold (fold updateSettings sts s))"
proof (induction sts arbitrary: s)
  case Nil
  then show ?case by simp
next
  case (Cons st sts)
  from Cons.prems have n: "is_number (Settings.buyThreshold st)" "is_number (Settings.sellThreshold st)"
    by simp_all
  from updateSettings_keeps_range [OF n Cons.prems(2) Cons.prems(3)]
  have "in_range (FearGreedStrategy.buyThreshold (updateSettings st s))"
    and "in_range (FearGreedStrategy.sellThreshold (updateSettings st s))"
    by simp_all
  with Cons.IH [of "updateSettings st s"] Cons.prems(1) show ?case
    by simp
qed

text \<open>
  C7 (as amended). \<open>updateSettings\<close> assigns to each threshold that the settings object
  supplies the value \<open>max(0, min(100, value))\<close>, leaves a threshold that is absent at its
  previous value, and leaves id, name and the enabled flag unchanged. When the supplied
  values are numbers, a threshold that was within 0..100 is within 0..100 afterwards, and
  so are both thresholds of a new strategy after any sequence of such updates.
\<close>

theorem updateSettings_clamps:
  "FearGreedStrategy.buyThreshold (updateSettings settings this) =
     (case Settings.buyThreshold settings of
        None \<Rightarrow> FearGreedStrategy.buyThreshold this
      | Some v \<Rightarrow> Math_max (Num 0) (Math_min (Num 100) v))
   \<and> FearGreedStrategy.sellThreshold (updateSettings settings this) =
     (case Settings.sellThreshold settings of
        None \<Rightarrow> FearGreedStrategy.sellThreshold this
      | Some v \<Rightarrow> Math_max (Num 0) (Math_min (Num 100) v))
   \<and> id' (updateSettings settings this) = id' this
   \<and> name (updateSettings settings this) = name this
   \<and> enabled (updateSettings settings this) = enabled this
   \<and> (is_number (Settings.buyThreshold settings) \<and> in_range (FearGreedStrategy.buyThreshold this)
        \<longrightarrow> in_range (FearGreedStrategy.buyThreshold (updateSettings settings this)))
   \<and> (is_number (Settings.sellThreshold settings) \<and> in_range (FearGreedStrategy.sellThreshold this)
        \<longrightarrow> in_range (FearGreedStrategy.sellThreshold (updateSettings settings this)))
   \<and> (list_all (\<lambda>st. is_number (Settings.buyThreshold st) \<and> is_number (Settings.sellThreshold st)) sts
        \<longrightarrow> in_range (FearGreedStrategy.buyThreshold (fold updateSettings sts new_FearGreedStrategy))
          \<and> in_range (FearGreedStrategy.sellThreshold (fold updateSettings sts new_FearGreedStrategy)))"
proof -
  have init: "in_range (FearGreedStrategy.buyThreshold new_FearGreedStrategy)"
      "in_range (FearGreedStrategy.sellThreshold new_FearGreedStrategy)"
    by (simp_all add: new_FearGreedStrategy_def)
  have seq: "list_all (\<lambda>st. is_number (Settings.buyThreshold st) \<and> is_number (Settings.sellThreshold st)) sts
        \<longrightarrow> in_range (FearGreedStrategy.buyThreshold (fold updateSettings sts new_FearGreedStrategy))
          \<and> in_range (FearGreedStrategy.sellThreshold (fold updateSettings sts new_FearGreedStrategy))"
    using fold_updateSettings_keeps_range [of sts new_FearGreedStrategy] init by blast
  have step: "FearGreedStrategy.buyThreshold (updateSettings settings this) =
     (case Settings.buyThreshold settings of
        None \<Rightarrow> FearGreedStrategy.buyThreshold this
      | Some v \<Rightarrow> Math_max (Num 0) (Math_min (Num 100) v))
   \<and> FearGreedStrategy.sellThreshold (updateSettings settings this) =
     (case Settings.sellThreshold settings of
        None \<Rightarrow> FearGreedStrategy.sellThreshold this
      | Some v \<Rightarrow> Math_max (Num 0) (Math_min (Num 100) v))
   \<and> id' (updateSettings settings this) = id' this
   \<and> name (updateSettings settings this) = name this
   \<and> enabled (updateSettings settings this) = enabled this
   \<and> (is_number (Settings.buyThreshold settings) \<and> in_range (FearGreedStrategy.buyThreshold this)
        \<longrightarrow> in_range (FearGreedStrategy.buyThreshold (updateSettings settings this)))
   \<and> (is_number (Settings.sellThreshold settings) \<and> in_range (FearGreedStrategy.sellThreshold this)
        \<longrightarrow> in_range (FearGreedStrategy.sellThreshold (updateSettings settings this)))"
    by (auto simp: updateSettings_def Let_def clamp_number_in_range split: option.splits)
  from step seq show ?thesis by blast
qed

theorem updateSettings_clamps_witness:
  "FearGreedStrategy.buyThreshold
      (updateSettings \<lparr>Settings.buyThreshold = Some (Num 150), Settings.sellThreshold = None\<rparr>
         new_FearGreedStrategy) = Num 100
   \<and> FearGreedStrategy.sellThreshold
      (updateSettings \<lparr>Settings.buyThreshold = Some (Num 150), Settings.sellThreshold = None\<rparr>
         new_FearGreedStrategy) = Num 80
   \<and> FearGreedStrategy.sellThreshold
      (updateSettings \<lparr>Settings.buyThreshold = None, Settings.sellThreshold = Some (Num (- 7))\<rparr>
         new_FearGreedStrategy) = Num 0
   \<and> in_range (FearGreedStrategy.buyThreshold
      (updateSettings \<lparr>Settings.buyThreshold = Some (Num 150), Settings.sellThreshold = None\<rparr>
         new_FearGreedStrategy))
   \<and> in_range (FearGreedStrategy.sellThreshold
      (fold updateSettings
         [\<lparr>Settings.buyThreshold = Some (Num 150), Settings.sellThreshold = None\<rparr>,
          \<lparr>Settings.buyThreshold = None, Settings.sellThreshold = Some (Num (- 7))\<rparr>]
         new_FearGreedStrategy))"
  using updateSettings_clamps [of "\<lparr>Settings.buyThreshold = Some (Num 150), Settings.sellThreshold = None\<rparr>"
      new_FearGreedStrategy "[\<lparr>Settings.buyThreshold = Some (Num 150), Settings.sellThreshold = None\<rparr>,
          \<lparr>Settings.buyThreshold = None, Settings.sellThreshold = Some (Num (- 7))\<rparr>]"]
    updateSettings_clamps [of "\<lparr>Settings.buyThreshold = None, Settings.sellThreshold = Some (Num (- 7))\<rparr>"
      new_FearGreedStrategy "[]"]
  by (simp add: new_FearGreedStrategy_def)

text \<open>
  C7 as stated fails: an update that supplies \<open>NaN\<close> as buy threshold, which is what
  \<^verbatim>\<open>parseInt\<close> of an empty input field is, stores \<open>NaN\<close>, which is not within 0..100.
\<close>

theorem updateSettings_NaN_counterexample:
  "FearGreedStrategy.buyThreshold
      (updateSettings \<lparr>Settings.buyThreshold = Some NaN, Settings.sellThreshold = None\<rparr>
         new_FearGreedStrategy) = NaN
   \<and> \<not> in_range (FearGreedStrategy.buyThreshold
      (updateSettings \<lparr>Settings.buyThreshold = Some NaN, Settings.sellThreshold = None\<rparr>
         new_FearGreedStrategy))"
  by (simp add: updateSettings_def new_FearGreedStrategy_def)

section \<open>Chart marker projection\<close>

text \<open>
  C8. \<open>toChartMarker\<close> keeps the time of the marker. A buy marker is shown below the
  bar, in green, as an up arrow, labelled with its text or with Buy when the text is
  empty; a sell marker is shown above the bar, in red, as a down arrow, labelled with its
  text or with Sell when the text is empty.
\<close>

theorem toChartMarker_projection:
  "toChartMarker \<lparr>SignalMarker.time = tm, type = ''buy'', text' = tx, reason = rs, strategyId = sid\<rparr> =
     \<lparr>ChartMarker.time = tm, position = ''belowBar'', color = ''#00d26a'', shape = ''arrowUp'',
      text' = (if tx = [] then ''Buy'' else tx)\<rparr>
   \<and> toChartMarker \<lparr>SignalMarker.time = tm, type = ''sell'', text' = tx, reason = rs, strategyId = sid\<rparr> =
     \<lparr>ChartMarker.time = tm, position = ''aboveBar'', color = ''#ff6b6b'', shape = ''arrowDown'',
      text' = (if tx = [] then ''Sell'' else tx)\<rparr>"
  by (simp add: toChartMarker_def or_default_def)

theorem toChartMarker_projection_witness:
  "toChartMarker \<lparr>SignalMarker.time = ''2024-01-01'', type = ''buy'', text' = ''FG:10'',
                  reason = ''Extreme Fear'', strategyId = ''feargreed''\<rparr> =
     \<lparr>ChartMarker.time = ''2024-01-01'', position = ''belowBar'', color = ''#00d26a'',
      shape = ''arrowUp'', text' = ''FG:10''\<rparr>
   \<and> toChartMarker \<lparr>SignalMarker.time = ''2024-01-02'', type = ''sell'', text' = [],
                    reason = ''Greed'', strategyId = ''feargreed''\<rparr> =
     \<lparr>ChartMarker.time = ''2024-01-02'', position = ''aboveBar'', color = ''#ff6b6b'',
      shape = ''arrowDown'', text' = ''Sell''\<rparr>
   \<and> ChartMarker.text' (toChartMarker \<lparr>SignalMarker.time = ''2024-01-02'', type = ''buy'', text' = [],
                    reason = ''Greed'', strategyId = ''feargreed''\<rparr>) = ''Buy''"
  using toChartMarker_projection [of "''2024-01-01''" "''FG:10''" "''Extreme Fear''" "''feargreed''"]
    toChartMarker_projection [of "''2024-01-02''" "[]" "''Greed''" "''feargreed''"]
  by simp

section \<open>The calculation of the sentiment strategy\<close>

lemma parseInt_id: "parseInt v = v"
  by (cases v) simp_all

lemma candleMap_fold:
  "(fold (\<lambda>candle m. m(Candle.time candle \<mapsto> candle)) cs m0) k \<noteq> None
     \<longleftrightarrow> k \<in> set (map Candle.time cs) \<or> m0 k \<noteq> None"
  by (induction cs arbitrary: m0) auto

lemma candleMap_of_has: "candleMap_of cs k \<noteq> None \<longleftrightarrow> k \<in> set (map Candle.time cs)"
  using candleMap_fold [of cs Map.empty k] by (simp add: candleMap_of_def)

lemma toISODate_valid: "validPoint p \<Longrightarrow> toISODate (timestamp p) = Inr (pointKey p)"
  by (cases "timestamp p") (simp_all add: validPoint_def pointKey_def)

lemma evaluateIndex_Some_iff: "evaluateIndex this v tm \<noteq> None \<longleftrightarrow> crosses this v"
  by (simp add: evaluateIndex_cases crosses_def)

lemma history_loop_valid:
  "list_all validPoint hist \<Longrightarrow>
     history_loop this cm hist acc =
       Inr (acc @ map (\<lambda>p. the (evaluateIndex this (value' p) (pointKey p)))
                   (filter (\<lambda>p. cm (pointKey p) \<noteq> None \<and> crosses this (value' p)) hist))"
proof (induction hist arbitrary: acc)
  case Nil
  then show ?case by simp
next
  case (Cons p hist)
  from Cons.prems have v: "validPoint p" and rest: "list_all validPoint hist"
    by simp_all
  note d = toISODate_valid [OF v]
  show ?case
  proof (cases "cm (pointKey p) \<noteq> None \<and> crosses this (value' p)")
    case True
    then obtain signal where s: "evaluateIndex this (value' p) (pointKey p) = Some signal"
      using evaluateIndex_Some_iff [of this "value' p" "pointKey p"] by auto
    with True show ?thesis
      using Cons.IH [OF rest, of "acc @ [signal]"]
      by (simp add: d parseInt_id)
  next
    case False
    then have "cm (pointKey p) = None \<or> evaluateIndex this (value' p) (pointKey p) = None"
      using evaluateIndex_Some_iff [of this "value' p" "pointKey p"] by auto
    with False show ?thesis
      using Cons.IH [OF rest, of acc]
      by (auto simp add: d parseInt_id)
  qed
qed

lemma calculate_backfill_example:
  "calculate new_FearGreedStrategy
        [\<lparr>Candle.time = ''2024-01-01'', ohlcv = ()\<rparr>, \<lparr>Candle.time = ''2024-01-02'', ohlcv = ()\<rparr>,
         \<lparr>Candle.time = ''2024-01-03'', ohlcv = ()\<rparr>]
        \<lparr>ExtraData.fearGreedIndex = None,
         ExtraData.fearGreedHistory = Some [\<lparr>timestamp = Num 1704067200, value' = Num 10\<rparr>,
                                  \<lparr>timestamp = Num 1704412800, value' = Num 90\<rparr>]\<rparr>
      = Inr [\<lparr>SignalMarker.time = ''2024-01-01'', type = ''buy'', text' = ''FG:10'',
              reason = ''Extreme Fear'', strategyId = ''feargreed''\<rparr>]"
  by code_simp

text \<open>
  C3 (as amended). For an enabled strategy, a non-empty history in which every timestamp is
  a number within the range of valid dates, and a non-empty candle series, \<open>calculate\<close>
  returns, in the order of the history, one marker for each history point whose UTC date
  key is the date key of a candle and whose value crosses a threshold, dated at that key,
  and nothing for the other points. With candles dated 2024-01-01, 2024-01-02 and
  2024-01-03 and the history (2024-01-01, 10), (2024-01-05, 90) the result is the one buy
  marker at 2024-01-01.
\<close>

theorem calculate_historical:
  "(enabled this \<and> history_of extraData \<noteq> [] \<and> cs \<noteq> [] \<and> list_all validPoint (history_of extraData) \<longrightarrow>
      calculate this cs extraData =
        Inr (map (\<lambda>p. the (evaluateIndex this (value' p) (pointKey p)))
               (filter (\<lambda>p. pointKey p \<in> set (map Candle.time cs) \<and> crosses this (value' p))
                  (history_of extraData))))
   \<and> (crosses this v \<longrightarrow>
        (\<exists>m. evaluateIndex this v tm = Some m \<and> SignalMarker.time m = tm))
   \<and> calculate new_FearGreedStrategy
        [\<lparr>Candle.time = ''2024-01-01'', ohlcv = ()\<rparr>, \<lparr>Candle.time = ''2024-01-02'', ohlcv = ()\<rparr>,
         \<lparr>Candle.time = ''2024-01-03'', ohlcv = ()\<rparr>]
        \<lparr>ExtraData.fearGreedIndex = None,
         ExtraData.fearGreedHistory = Some [\<lparr>timestamp = Num 1704067200, value' = Num 10\<rparr>,
                                  \<lparr>timestamp = Num 1704412800, value' = Num 90\<rparr>]\<rparr>
      = Inr [\<lparr>SignalMarker.time = ''2024-01-01'', type = ''buy'', text' = ''FG:10'',
              reason = ''Extreme Fear'', strategyId = ''feargreed''\<rparr>]"
proof -
  have a: "crosses this v \<longrightarrow> (\<exists>m. evaluateIndex this v tm = Some m \<and> SignalMarker.time m = tm)"
    by (simp add: evaluateIndex_cases crosses_def)
  have b: "enabled this \<and> history_of extraData \<noteq> [] \<and> cs \<noteq> [] \<and> list_all validPoint (history_of extraData) \<longrightarrow>
      calculate this cs extraData =
        Inr (map (\<lambda>p. the (evaluateIndex this (value' p) (pointKey p)))
               (filter (\<lambda>p. pointKey p \<in> set (map Candle.time cs) \<and> crosses this (value' p))
                  (history_of extraData)))"
    using candleMap_of_has [of cs]
    by (simp add: calculate_def Let_def history_loop_valid)
  from a b calculate_backfill_example show ?thesis by blast
qed

lemma backfill_key1: "pointKey \<lparr>timestamp = Num 1704067200, value' = Num 10\<rparr> = ''2024-01-01''"
  by code_simp
lemma backfill_key2: "pointKey \<lparr>timestamp = Num 1704412800, value' = Num 90\<rparr> = ''2024-01-05''"
  by code_simp
lemma backfill_valid1: "validPoint \<lparr>timestamp = Num 1704067200, value' = Num 10\<rparr>"
  by code_simp
lemma backfill_valid2: "validPoint \<lparr>timestamp = Num 1704412800, value' = Num 90\<rparr>"
  by code_simp
lemma backfill_marker: "evaluateIndex new_FearGreedStrategy (Num 10) ''2024-01-01'' = Some \<lparr>SignalMarker.time = ''2024-01-01'', type = ''buy'', text' = ''FG:10'',
              reason = ''Extreme Fear'', strategyId = ''feargreed''\<rparr>"
  by code_simp

lemma backfill_crosses: "crosses new_FearGreedStrategy (Num 10)"
  by (simp add: crosses_def new_FearGreedStrategy_def)

theorem calculate_historical_witness:
  "calculate new_FearGreedStrategy
        [\<lparr>Candle.time = ''2024-01-01'', ohlcv = ()\<rparr>, \<lparr>Candle.time = ''2024-01-02'', ohlcv = ()\<rparr>,
         \<lparr>Candle.time = ''2024-01-03'', ohlcv = ()\<rparr>]
        \<lparr>ExtraData.fearGreedIndex = None,
         ExtraData.fearGreedHistory = Some [\<lparr>timestamp = Num 1704067200, value' = Num 10\<rparr>,
                                  \<lparr>timestamp = Num 1704412800, value' = Num 90\<rparr>]\<rparr>
      = Inr [\<lparr>SignalMarker.time = ''2024-01-01'', type = ''buy'', text' = ''FG:10'',
              reason = ''Extreme Fear'', strategyId = ''feargreed''\<rparr>]"
proof -
  have en: "enabled new_FearGreedStrategy"
    by (simp add: new_FearGreedStrategy_def)
  have h: "calculate new_FearGreedStrategy
        [\<lparr>Candle.time = ''2024-01-01'', ohlcv = ()\<rparr>, \<lparr>Candle.time = ''2024-01-02'', ohlcv = ()\<rparr>,
         \<lparr>Candle.time = ''2024-01-03'', ohlcv = ()\<rparr>]
        \<lparr>ExtraData.fearGreedIndex = None,
         ExtraData.fearGreedHistory = Some [\<lparr>timestamp = Num 1704067200, value' = Num 10\<rparr>,
                                  \<lparr>timestamp = Num 1704412800, value' = Num 90\<rparr>]\<rparr>
      = Inr (map (\<lambda>p. the (evaluateIndex new_FearGreedStrategy (value' p) (pointKey p)))
               (filter (\<lambda>p. pointKey p \<in> set (map Candle.time [\<lparr>Candle.time = ''2024-01-01'', ohlcv = ()\<rparr>, \<lparr>Candle.time = ''2024-01-02'', ohlcv = ()\<rparr>,
         \<lparr>Candle.time = ''2024-01-03'', ohlcv = ()\<rparr>]) \<and> crosses new_FearGreedStrategy (value' p))
                  [\<lparr>timestamp = Num 1704067200, value' = Num 10\<rparr>,
                                  \<lparr>timestamp = Num 1704412800, value' = Num 90\<rparr>]))"
    using calculate_historical [of new_FearGreedStrategy "\<lparr>ExtraData.fearGreedIndex = None,
         ExtraData.fearGreedHistory = Some [\<lparr>timestamp = Num 1704067200, value' = Num 10\<rparr>,
                                  \<lparr>timestamp = Num 1704412800, value' = Num 90\<rparr>]\<rparr>"
         "[\<lparr>Candle.time = ''2024-01-01'', ohlcv = ()\<rparr>, \<lparr>Candle.time = ''2024-01-02'', ohlcv = ()\<rparr>,
         \<lparr>Candle.time = ''2024-01-03'', ohlcv = ()\<rparr>]"] en backfill_valid1 backfill_valid2
    by (simp add: history_of_def)
  show ?thesis
    unfolding h by (simp add: backfill_key1 backfill_key2 backfill_marker backfill_crosses)
qed

text \<open>
  C3 as stated fails: a history point whose timestamp lies beyond the range of valid dates
  makes the date conversion raise, so the matching point before it yields no marker either.
\<close>

theorem calculate_invalid_date_counterexample:
  "calculate new_FearGreedStrategy
        [\<lparr>Candle.time = ''2024-01-01'', ohlcv = ()\<rparr>]
        \<lparr>ExtraData.fearGreedIndex = None,
         ExtraData.fearGreedHistory = Some [\<lparr>timestamp = Num 1704067200, value' = Num 10\<rparr>,
                                  \<lparr>timestamp = Num 10000000000000, value' = Num 50\<rparr>]\<rparr>
      = Inl RangeError"
  by code_simp

text \<open>
  C4. For an enabled strategy with an empty history, a scalar index value and a non-empty
  candle series, \<open>calculate\<close> returns at most one marker: the marker of the value, dated at
  the key of the last candle, when the value crosses a threshold, and nothing when it does
  not. Whenever neither the history and the candles are both non-empty nor an index value
  and non-empty candles are present, \<open>calculate\<close> returns the empty sequence.
\<close>

theorem calculate_live:
  "(enabled this \<and> history_of extraData = [] \<and> ExtraData.fearGreedIndex extraData = Some v \<and> cs \<noteq> [] \<longrightarrow>
      calculate this cs extraData =
        Inr (if crosses this v then [the (evaluateIndex this v (Candle.time (last cs)))] else [])
      \<and> (crosses this v \<longrightarrow>
            SignalMarker.time (the (evaluateIndex this v (Candle.time (last cs)))) = Candle.time (last cs)))
   \<and> (\<not> (history_of extraData \<noteq> [] \<and> cs \<noteq> [])
        \<and> \<not> (ExtraData.fearGreedIndex extraData \<noteq> None \<and> cs \<noteq> []) \<longrightarrow>
      calculate this cs extraData = Inr [])"
proof -
  have a: "enabled this \<and> history_of extraData = [] \<and> ExtraData.fearGreedIndex extraData = Some v \<and> cs \<noteq> [] \<longrightarrow>
      calculate this cs extraData =
        Inr (if crosses this v then [the (evaluateIndex this v (Candle.time (last cs)))] else [])"
  proof (intro impI, elim conjE)
    assume h: "enabled this" "history_of extraData = []" "ExtraData.fearGreedIndex extraData = Some v"
      and ne: "cs \<noteq> []"
    from ne have l: "cs ! (length cs - Suc 0) = last cs"
      by (simp add: last_conv_nth)
    show "calculate this cs extraData =
        Inr (if crosses this v then [the (evaluateIndex this v (Candle.time (last cs)))] else [])"
      using evaluateIndex_Some_iff [of this v "Candle.time (last cs)"] h ne
      by (auto simp: calculate_def Let_def l split: option.splits)
  qed
  have b: "crosses this v \<longrightarrow>
            SignalMarker.time (the (evaluateIndex this v (Candle.time (last cs)))) = Candle.time (last cs)"
    by (simp add: evaluateIndex_cases crosses_def)
  have c: "\<not> (history_of extraData \<noteq> [] \<and> cs \<noteq> [])
        \<and> \<not> (ExtraData.fearGreedIndex extraData \<noteq> None \<and> cs \<noteq> []) \<longrightarrow>
      calculate this cs extraData = Inr []"
    by (auto simp: calculate_def Let_def split: option.splits)
  from a b c show ?thesis by blast
qed

lemma live_marker:
  "evaluateIndex new_FearGreedStrategy (Num 85) ''2024-01-02'' =
     Some \<lparr>SignalMarker.time = ''2024-01-02'', type = ''sell'', text' = ''FG:85'',
           reason = ''Extreme Greed'', strategyId = ''feargreed''\<rparr>"
  by code_simp

theorem calculate_live_witness:
  "calculate new_FearGreedStrategy
     [\<lparr>Candle.time = ''2024-01-01'', ohlcv = ()\<rparr>, \<lparr>Candle.time = ''2024-01-02'', ohlcv = ()\<rparr>]
     \<lparr>ExtraData.fearGreedIndex = Some (Num 85), ExtraData.fearGreedHistory = Some []\<rparr>
     = Inr [\<lparr>SignalMarker.time = ''2024-01-02'', type = ''sell'', text' = ''FG:85'',
             reason = ''Extreme Greed'', strategyId = ''feargreed''\<rparr>]
   \<and> calculate new_FearGreedStrategy
     [\<lparr>Candle.time = ''2024-01-01'', ohlcv = ()\<rparr>, \<lparr>Candle.time = ''2024-01-02'', ohlcv = ()\<rparr>]
     \<lparr>ExtraData.fearGreedIndex = Some (Num 50), ExtraData.fearGreedHistory = None\<rparr>
     = Inr []
   \<and> calculate new_FearGreedStrategy
     ([] :: unit Candle list)
     \<lparr>ExtraData.fearGreedIndex = Some (Num 5),
      ExtraData.fearGreedHistory = Some [\<lparr>timestamp = Num 1704067200, value' = Num 10\<rparr>]\<rparr>
     = Inr []"
proof -
  have en: "enabled new_FearGreedStrategy"
    by (simp add: new_FearGreedStrategy_def)
  have c85: "crosses new_FearGreedStrategy (Num 85)" and c50: "\<not> crosses new_FearGreedStrategy (Num 50)"
    by (simp_all add: crosses_def new_FearGreedStrategy_def)
  show ?thesis
    using calculate_live [of new_FearGreedStrategy
        "\<lparr>ExtraData.fearGreedIndex = Some (Num 85), ExtraData.fearGreedHistory = Some []\<rparr>" "Num 85"
        "[\<lparr>Candle.time = ''2024-01-01'', ohlcv = ()\<rparr>, \<lparr>Candle.time = ''2024-01-02'', ohlcv = ()\<rparr>]"]
      calculate_live [of new_FearGreedStrategy
        "\<lparr>ExtraData.fearGreedIndex = Some (Num 50), ExtraData.fearGreedHistory = None\<rparr>" "Num 50"
        "[\<lparr>Candle.time = ''2024-01-01'', ohlcv = ()\<rparr>, \<lparr>Candle.time = ''2024-01-02'', ohlcv = ()\<rparr>]"]
      calculate_live [of new_FearGreedStrategy
        "\<lparr>ExtraData.fearGreedIndex = Some (Num 5),
          ExtraData.fearGreedHistory = Some [\<lparr>timestamp = Num 1704067200, value' = Num 10\<rparr>]\<rparr>" "Num 5"
        "[] :: unit Candle list"]
    by (simp add: en c85 c50 history_of_def live_marker)
qed

lemma collectSignals_skips_disabled:
  "\<not> s_isEnabled s \<Longrightarrow>
     collectSignals (pre @ s # post) cs extraData acc = collectSignals (pre @ post) cs extraData acc"
  by (induction pre arbitrary: acc) (auto split: sum.splits)

text \<open>
  C6. A disabled strategy returns the empty sequence from \<open>calculate\<close> for every candle
  series and every sentiment payload, without looking at either and without raising, and
  the aggregator collects the same markers with it as without it.
\<close>

theorem calculate_disabled:
  "\<not> enabled this \<Longrightarrow>
     calculate this cs extraData = Inr []
     \<and> collectSignals (pre @ as_strategy this # post) cs extraData acc
         = collectSignals (pre @ post) cs extraData acc"
  by (simp add: calculate_def collectSignals_skips_disabled as_strategy_def isEnabled_def)

theorem calculate_disabled_witness:
  "\<not> enabled (setEnabled False new_FearGreedStrategy)
   \<and> calculate (setEnabled False new_FearGreedStrategy)
       [\<lparr>Candle.time = ''2024-01-01'', ohlcv = ()\<rparr>]
       \<lparr>ExtraData.fearGreedIndex = Some (Num 5),
        ExtraData.fearGreedHistory = Some [\<lparr>timestamp = Num 1704067200, value' = Num 10\<rparr>,
                                           \<lparr>timestamp = NaN, value' = NaN\<rparr>]\<rparr> = Inr []
   \<and> collectSignals [as_strategy (setEnabled False new_FearGreedStrategy)]
        [\<lparr>Candle.time = ''2024-01-01'', ohlcv = ()\<rparr>]
        \<lparr>ExtraData.fearGreedIndex = Some (Num 5), ExtraData.fearGreedHistory = Some []\<rparr> [] = Inr []"
  using calculate_disabled [of "setEnabled False new_FearGreedStrategy"
      "[\<lparr>Candle.time = ''2024-01-01'', ohlcv = ()\<rparr>]"
      "\<lparr>ExtraData.fearGreedIndex = Some (Num 5),
        ExtraData.fearGreedHistory = Some [\<lparr>timestamp = Num 1704067200, value' = Num 10\<rparr>,
                                           \<lparr>timestamp = NaN, value' = NaN\<rparr>]\<rparr>" "[]" "[]" "[]"]
    calculate_disabled [of "setEnabled False new_FearGreedStrategy"
      "[\<lparr>Candle.time = ''2024-01-01'', ohlcv = ()\<rparr>]"
      "\<lparr>ExtraData.fearGreedIndex = Some (Num 5), ExtraData.fearGreedHistory = Some []\<rparr>" "[]" "[]" "[]"]
  by (simp add: setEnabled_def)

lemma reachable_id: "reachable s \<Longrightarrow> id' s = ''feargreed''"
  by (induction rule: reachable.induct)
     (auto simp: new_FearGreedStrategy_def setEnabled_def updateSettings_def Let_def split: option.splits)

lemma evaluateIndex_ok:
  "evaluateIndex this v tm = Some m \<Longrightarrow> tm \<in> K \<Longrightarrow> marker_ok this K m"
  by (auto simp: evaluateIndex_cases marker_ok_def split: if_splits)

lemma history_loop_ok:
  "history_loop this cm hist acc = Inr out \<Longrightarrow> \<forall>m\<in>set acc. marker_ok this (dom cm) m \<Longrightarrow>
     \<forall>m\<in>set out. marker_ok this (dom cm) m"
proof (induction hist arbitrary: acc)
  case Nil
  then show ?case by simp
next
  case (Cons p hist)
  show ?case
  proof (cases "toISODate (parseInt (timestamp p))")
    case (Inl e)
    with Cons.prems(1) show ?thesis by simp
  next
    case (Inr dateStr)
    show ?thesis
    proof (cases "cm dateStr \<noteq> None")
      case False
      with Inr Cons.prems(1) have "history_loop this cm hist acc = Inr out"
        by simp
      from Cons.IH [OF this Cons.prems(2)] show ?thesis .
    next
      case True
      then have k: "dateStr \<in> dom cm" by auto
      show ?thesis
      proof (cases "evaluateIndex this (parseInt (value' p)) dateStr")
        case None
        with True Inr Cons.prems(1) have "history_loop this cm hist acc = Inr out"
          by (simp add: Let_def)
        from Cons.IH [OF this Cons.prems(2)] show ?thesis .
      next
        case (Some signal)
        with True Inr Cons.prems(1) have r: "history_loop this cm hist (acc @ [signal]) = Inr out"
          by (simp add: Let_def)
        from evaluateIndex_ok [OF Some k] Cons.prems(2)
        have "\<forall>m\<in>set (acc @ [signal]). marker_ok this (dom cm) m"
          by simp
        from Cons.IH [OF r this] show ?thesis .
      qed
    qed
  qed
qed

lemma dom_candleMap_of: "dom (candleMap_of cs) = set (map Candle.time cs)"
  using candleMap_of_has [of cs] by (auto simp: dom_def)

text \<open>
  C10. Every marker that \<open>calculate\<close> returns is dated at the time key of a candle of the
  input series, has type buy or sell, and carries the id of the strategy, which is
  feargreed for every strategy state that the constructor and the public methods produce.
\<close>

theorem calculate_markers_wellformed:
  "calculate this cs extraData = Inr out \<Longrightarrow> m \<in> set out \<Longrightarrow>
     SignalMarker.time m \<in> set (map Candle.time cs)
     \<and> (type m = ''buy'' \<or> type m = ''sell'')
     \<and> strategyId m = id' this
     \<and> (reachable this \<longrightarrow> strategyId m = ''feargreed'')"
proof -
  assume c: "calculate this cs extraData = Inr out" and m: "m \<in> set out"
  have "marker_ok this (set (map Candle.time cs)) m"
  proof (cases "enabled this \<and> history_of extraData \<noteq> [] \<and> cs \<noteq> []")
    case True
    with c have "history_loop this (candleMap_of cs) (history_of extraData) [] = Inr out"
      by (simp add: calculate_def Let_def)
    from history_loop_ok [OF this] m show ?thesis
      by (simp add: dom_candleMap_of)
  next
    case False
    show ?thesis
    proof (cases "enabled this \<and> cs \<noteq> [] \<and> ExtraData.fearGreedIndex extraData \<noteq> None")
      case True
      then obtain v where v: "ExtraData.fearGreedIndex extraData = Some v" by auto
      from True have l: "cs ! (length cs - Suc 0) = last cs" by (simp add: last_conv_nth)
      from True have k: "Candle.time (last cs) \<in> set (map Candle.time cs)" by simp
      from c False True v l m have "evaluateIndex this v (Candle.time (last cs)) = Some m"
        by (auto simp: calculate_def Let_def split: option.splits if_splits)
      from evaluateIndex_ok [OF this k] show ?thesis .
    next
      case no: False
      with False c have "out = []"
        by (auto simp: calculate_def Let_def split: option.splits if_splits)
      with m show ?thesis by simp
    qed
  qed
  then show ?thesis
    using reachable_id [of this] by (auto simp: marker_ok_def)
qed


theorem calculate_markers_wellformed_witness:
  "calculate new_FearGreedStrategy
        [\<lparr>Candle.time = ''2024-01-01'', ohlcv = ()\<rparr>, \<lparr>Candle.time = ''2024-01-02'', ohlcv = ()\<rparr>,
         \<lparr>Candle.time = ''2024-01-03'', ohlcv = ()\<rparr>]
        \<lparr>ExtraData.fearGreedIndex = None,
         ExtraData.fearGreedHistory = Some [\<lparr>timestamp = Num 1704067200, value' = Num 10\<rparr>,
                                  \<lparr>timestamp = Num 1704412800, value' = Num 90\<rparr>]\<rparr>
      = Inr [\<lparr>SignalMarker.time = ''2024-01-01'', type = ''buy'', text' = ''FG:10'',
              reason = ''Extreme Fear'', strategyId = ''feargreed''\<rparr>]
   \<and> ''2024-01-01'' \<in> set (map Candle.time
        [\<lparr>Candle.time = ''2024-01-01'', ohlcv = ()\<rparr>, \<lparr>Candle.time = ''2024-01-02'', ohlcv = ()\<rparr>,
         \<lparr>Candle.time = ''2024-01-03'', ohlcv = ()\<rparr>])
   \<and> reachable new_FearGreedStrategy
   \<and> id' new_FearGreedStrategy = ''feargreed''"
  using calculate_markers_wellformed [OF calculate_backfill_example,
      of "\<lparr>SignalMarker.time = ''2024-01-01'', type = ''buy'', text' = ''FG:10'',
              reason = ''Extreme Fear'', strategyId = ''feargreed''\<rparr>"]
    calculate_backfill_example r_new
  by simp

section \<open>Aggregation\<close>






























end
